theory Spec2Isabelle
  imports Complex_Main "HOL-Library.Sublist"
begin

section \<open>GovTrack: record store, simulation ticker, metrics, query pipeline, report workflow\<close>

text \<open>
  The dashboard page keeps four collections in component state (budgets, projects,
  expenditures, reports), mutates budgets and projects from a timer, and derives metrics
  and filtered views from them. The embedding below follows the page component.

  Numbers: a JavaScript number that the page stores in a record is modelled as a real
  (finite, computed exactly). The metrics code divides by values that can be zero, so
  its arithmetic is modelled on \<open>jsnum\<close>, the reals extended with \<open>Infinity\<close>,
  \<open>-Infinity\<close> and \<open>NaN\<close>.
  \<open>Math.random()\<close> is a source of reals in \<open>[0, 1)\<close> read in call order, and
  \<open>new Date().toISOString()\<close> a source of timestamp strings read in call order.
\<close>

subsection \<open>Types\<close>

datatype Status = OnTrack | Delayed | Completed | AtRisk

datatype ReportStatus = Submitted | UnderReview | Resolved

datatype Severity = Low | Medium | High

record Budget =
  id :: string
  department :: string
  category :: string
  allocated :: real
  spent :: real
  region :: string
  lastUpdated :: string

record Expenditure =
  id :: string
  projectId :: "string option"
  department :: string
  description :: string
  amount :: real
  date :: string
  category :: string

record IrregularityReport =
  id :: string
  type :: string
  subject :: "string option"
  description :: "string option"
  department :: "string option"
  projectId :: "string option"
  createdAt :: string
  status :: ReportStatus
  severity :: Severity
  reference :: "string option"

text \<open>
  \<open>Partial<IrregularityReport>\<close>: every property may be absent. \<open>subject\<close> and
  \<open>description\<close> are copied from a draft into a report unchecked, so the report's two
  fields hold whatever the draft has, also nothing.
\<close>

record ReportDraft =
  id :: "string option"
  type :: "string option"
  subject :: "string option"
  description :: "string option"
  department :: "string option"
  projectId :: "string option"
  createdAt :: "string option"
  status :: "ReportStatus option"
  severity :: "Severity option"
  reference :: "string option"

record Project =
  id :: string
  name :: string
  department :: string
  budget :: real
  spent :: real
  status :: Status
  progress :: real
  startDate :: string
  endDate :: string
  region :: string
  description :: string
  updatedAt :: string
  risk :: real

subsection \<open>Utility functions\<close>

text \<open>\<open>clamp(v, min = 0, max = 100) = Math.min(Math.max(v, min), max)\<close>\<close>

definition clamp :: "real \<Rightarrow> real \<Rightarrow> real \<Rightarrow> real" where
  "clamp v lo hi = min (max v lo) hi"

text \<open>\<open>Math.round\<close>: the nearest integer, a tie going up.\<close>

definition Math_round :: "real \<Rightarrow> real" where
  "Math_round x = of_int \<lfloor>x + 1 / 2\<rfloor>"

subsection \<open>The sources of randomness and time\<close>

text \<open>
  \<open>rnd\<close> is the sequence of values \<open>Math.random()\<close> returns and \<open>clk\<close> the sequence of
  strings \<open>new Date().toISOString()\<close> returns; the world counts how many of each have
  been read.
\<close>

record world =
  rpos :: nat
  cpos :: nat

definition Math_random :: "(nat \<Rightarrow> real) \<Rightarrow> world \<Rightarrow> real \<times> world" where
  "Math_random rnd w = (rnd (rpos w), w\<lparr>rpos := rpos w + 1\<rparr>)"

definition nowISO :: "(nat \<Rightarrow> string) \<Rightarrow> world \<Rightarrow> string \<times> world" where
  "nowISO clk w = (clk (cpos w), w\<lparr>cpos := cpos w + 1\<rparr>)"

definition unit_draws :: "(nat \<Rightarrow> real) \<Rightarrow> bool" where
  "unit_draws rnd = (\<forall>n. 0 \<le> rnd n \<and> rnd n < 1)"

subsection \<open>Sample data\<close>

definition seedBudgets :: "string \<Rightarrow> Budget list" where
  "seedBudgets now =
    [\<lparr>Budget.id = ''b1'', Budget.department = ''Health'', Budget.category = ''Public Services'',
      Budget.allocated = 50000000, Budget.spent = 21500000, Budget.region = ''National'', Budget.lastUpdated = now\<rparr>,
     \<lparr>Budget.id = ''b2'', Budget.department = ''Education'', Budget.category = ''Public Services'',
      Budget.allocated = 42000000, Budget.spent = 28900000, Budget.region = ''National'', Budget.lastUpdated = now\<rparr>,
     \<lparr>Budget.id = ''b3'', Budget.department = ''Transport'', Budget.category = ''Infrastructure'',
      Budget.allocated = 65000000, Budget.spent = 41200000, Budget.region = ''National'', Budget.lastUpdated = now\<rparr>,
     \<lparr>Budget.id = ''b4'', Budget.department = ''Agriculture'', Budget.category = ''Economic'',
      Budget.allocated = 18000000, Budget.spent = 9000000, Budget.region = ''Rural'', Budget.lastUpdated = now\<rparr>,
     \<lparr>Budget.id = ''b5'', Budget.department = ''Energy'', Budget.category = ''Infrastructure'',
      Budget.allocated = 30000000, Budget.spent = 11000000, Budget.region = ''National'', Budget.lastUpdated = now\<rparr>,
     \<lparr>Budget.id = ''b6'', Budget.department = ''Tourism'', Budget.category = ''Economic'',
      Budget.allocated = 8000000, Budget.spent = 3500000, Budget.region = ''Coastal'', Budget.lastUpdated = now\<rparr>,
     \<lparr>Budget.id = ''b7'', Budget.department = ''Defense'', Budget.category = ''Security'',
      Budget.allocated = 90000000, Budget.spent = 61000000, Budget.region = ''National'', Budget.lastUpdated = now\<rparr>,
     \<lparr>Budget.id = ''b8'', Budget.department = ''Justice'', Budget.category = ''Security'',
      Budget.allocated = 27000000, Budget.spent = 14000000, Budget.region = ''National'', Budget.lastUpdated = now\<rparr>]"

definition seedProjects :: "string \<Rightarrow> Project list" where
  "seedProjects now =
    [\<lparr>id = ''p1'', name = ''Rural Clinic Expansion'', department = ''Health'',
      budget = 12000000, spent = 4600000, status = OnTrack, progress = 39,
      startDate = ''2024-01-15'', endDate = ''2025-07-30'', region = ''Rural'',
      description = ''Building and upgrading rural health clinics to expand access.'',
      updatedAt = now, risk = 25\<rparr>,
     \<lparr>id = ''p2'', name = ''Highway Modernization'', department = ''Transport'',
      budget = 30000000, spent = 15800000, status = Delayed, progress = 52,
      startDate = ''2023-09-01'', endDate = ''2025-12-31'', region = ''National'',
      description = ''Modernizing key national highway corridors for safety and capacity.'',
      updatedAt = now, risk = 55\<rparr>,
     \<lparr>id = ''p3'', name = ''Digital Classrooms Initiative'', department = ''Education'',
      budget = 15000000, spent = 7200000, status = OnTrack, progress = 47,
      startDate = ''2024-02-01'', endDate = ''2025-06-15'', region = ''National'',
      description = ''Deploying digital tools and connectivity in public schools.'',
      updatedAt = now, risk = 30\<rparr>,
     \<lparr>id = ''p4'', name = ''Green Energy Pilot'', department = ''Energy'',
      budget = 10000000, spent = 4800000, status = OnTrack, progress = 49,
      startDate = ''2024-03-01'', endDate = ''2025-03-01'', region = ''National'',
      description = ''Pilot renewable microgrid systems for remote areas.'',
      updatedAt = now, risk = 35\<rparr>,
     \<lparr>id = ''p5'', name = ''Agri Supply Chain Upgrade'', department = ''Agriculture'',
      budget = 8000000, spent = 2700000, status = AtRisk, progress = 28,
      startDate = ''2024-04-01'', endDate = ''2025-10-01'', region = ''Rural'',
      description = ''Improving cold storage and logistics for produce.'',
      updatedAt = now, risk = 68\<rparr>,
     \<lparr>id = ''p6'', name = ''Judicial Case System'', department = ''Justice'',
      budget = 6000000, spent = 2400000, status = OnTrack, progress = 36,
      startDate = ''2024-01-10'', endDate = ''2025-01-10'', region = ''National'',
      description = ''Implementing digital case management for courts.'',
      updatedAt = now, risk = 40\<rparr>,
     \<lparr>id = ''p7'', name = ''Border Security Upgrade'', department = ''Defense'',
      budget = 22000000, spent = 9600000, status = Delayed, progress = 44,
      startDate = ''2023-12-01'', endDate = ''2025-08-01'', region = ''National'',
      description = ''Deploying modern surveillance and control infrastructure.'',
      updatedAt = now, risk = 58\<rparr>,
     \<lparr>id = ''p8'', name = ''Eco Tourism Campaign'', department = ''Tourism'',
      budget = 5000000, spent = 1700000, status = OnTrack, progress = 34,
      startDate = ''2024-05-01'', endDate = ''2025-05-01'', region = ''Coastal'',
      description = ''Promoting sustainable tourism development.'',
      updatedAt = now, risk = 32\<rparr>,
     \<lparr>id = ''p9'', name = ''School Nutrition Upgrade'', department = ''Education'',
      budget = 9000000, spent = 3000000, status = OnTrack, progress = 33,
      startDate = ''2024-03-15'', endDate = ''2025-09-15'', region = ''National'',
      description = ''Enhancing nutritional standards for school meals.'',
      updatedAt = now, risk = 29\<rparr>]"

subsection \<open>Simulation tick\<close>

text \<open>
  The object literal the callback of \<open>setProjects\<close> returns for an updated project:
  \<open>u1\<close>, \<open>u2\<close> and \<open>u3\<close> are the values of the three \<open>Math.random()\<close> calls (increment,
  spend factor, risk) and \<open>t\<close> is \<open>new Date().toISOString()\<close>. Every right-hand side
  reads the previous project \<open>p\<close>.
\<close>

definition updateProject :: "real \<Rightarrow> real \<Rightarrow> string \<Rightarrow> real \<Rightarrow> Project \<Rightarrow> Project" where
  "updateProject u1 u2 t u3 p =
    (let inc = u1 * 4;
         extraSpend = Math_round (budget p * (inc / 100) * (0.8 + u2 * 0.4))
     in p\<lparr>progress := clamp (progress p + inc) 0 100,
          spent := min (budget p) (Project.spent p + extraSpend),
          status := (if progress p + inc \<ge> 100 then Completed else status p),
          updatedAt := t,
          risk := (if status p = Delayed \<or> status p = AtRisk
                   then min 90 (risk p + u3 * 3)
                   else max 10 (risk p + (u3 * 4 - 2)))\<rparr>)"

text \<open>
  The callback itself. The gate draw is always read (it is the left operand of \<open>&&\<close>);
  the three further draws and the clock are read only when the project is updated, in
  the order in which the function body reaches them.
\<close>

definition tickProject :: "(nat \<Rightarrow> real) \<Rightarrow> (nat \<Rightarrow> string) \<Rightarrow> Project \<Rightarrow> world \<Rightarrow> Project \<times> world" where
  "tickProject rnd clk p w =
    (let (g, w1) = Math_random rnd w in
     if g < 0.2 \<and> progress p < 100 then
       (let (u1, w2) = Math_random rnd w1;
            (u2, w3) = Math_random rnd w2;
            (t, w4) = nowISO clk w3;
            (u3, w5) = Math_random rnd w4
        in (updateProject u1 u2 t u3 p, w5))
     else (p, w1))"

text \<open>The same for a budget: \<open>u\<close> is the draw inside \<open>delta\<close>.\<close>

definition updateBudget :: "real \<Rightarrow> string \<Rightarrow> Budget \<Rightarrow> Budget" where
  "updateBudget u t b =
    (let delta = Math_round (allocated b * 0.0005 * u * 50);
         newSpent = min (allocated b * 1.15) (Budget.spent b + delta)
     in b\<lparr>Budget.spent := newSpent, lastUpdated := t\<rparr>)"

definition tickBudget :: "(nat \<Rightarrow> real) \<Rightarrow> (nat \<Rightarrow> string) \<Rightarrow> Budget \<Rightarrow> world \<Rightarrow> Budget \<times> world" where
  "tickBudget rnd clk b w =
    (let (g, w1) = Math_random rnd w in
     if g < 0.15 then
       (let (u, w2) = Math_random rnd w1;
            (t, w3) = nowISO clk w2
        in (updateBudget u t b, w3))
     else (b, w1))"

text \<open>\<open>Array.prototype.map\<close> with a callback that reads the sources: left to right.\<close>

fun mapW :: "('a \<Rightarrow> world \<Rightarrow> 'a \<times> world) \<Rightarrow> 'a list \<Rightarrow> world \<Rightarrow> 'a list \<times> world" where
  "mapW f [] w = ([], w)"
| "mapW f (x # xs) w =
    (let (y, w1) = f x w; (ys, w2) = mapW f xs w1 in (y # ys, w2))"

text \<open>The two collections the timer replaces, with the world the callbacks read.\<close>

record sim =
  projects :: "Project list"
  budgets :: "Budget list"
  env :: world

definition tick :: "(nat \<Rightarrow> real) \<Rightarrow> (nat \<Rightarrow> string) \<Rightarrow> sim \<Rightarrow> sim" where
  "tick rnd clk s =
    (let (ps, w1) = mapW (tickProject rnd clk) (projects s) (env s);
         (bs, w2) = mapW (tickBudget rnd clk) (budgets s) w1
     in \<lparr>projects = ps, budgets = bs, env = w2\<rparr>)"

definition seed :: "string \<Rightarrow> string \<Rightarrow> sim" where
  "seed tb tp = \<lparr>projects = seedProjects tp, budgets = seedBudgets tb,
                 env = \<lparr>rpos = 0, cpos = 0\<rparr>\<rparr>"

text \<open>
  \<open>seed\<close> is the state the two initialisers build (each with its own timestamp), with
  the sources counted from the first value the ticker will read. The state after \<open>n\<close>
  firings of the interval:
\<close>

definition ticks :: "(nat \<Rightarrow> real) \<Rightarrow> (nat \<Rightarrow> string) \<Rightarrow> nat \<Rightarrow> sim \<Rightarrow> sim" where
  "ticks rnd clk n s = ((tick rnd clk) ^^ n) s"

subsection \<open>JavaScript numbers outside the finite range\<close>

text \<open>
  The metrics code divides without a guard, so its intermediate values can be
  \<open>Infinity\<close>, \<open>-Infinity\<close> or \<open>NaN\<close>. The operations below follow IEEE 754 on these
  values as JavaScript does; finite results are exact, and zero has no sign (a zero
  divisor is \<open>+0\<close>).
\<close>

datatype jsnum = Num real | PosInf | NegInf | NaN

fun js_neg :: "jsnum \<Rightarrow> jsnum" where
  "js_neg (Num a) = Num (- a)"
| "js_neg PosInf = NegInf"
| "js_neg NegInf = PosInf"
| "js_neg NaN = NaN"

fun js_add :: "jsnum \<Rightarrow> jsnum \<Rightarrow> jsnum" where
  "js_add (Num a) (Num b) = Num (a + b)"
| "js_add NaN y = NaN"
| "js_add x NaN = NaN"
| "js_add PosInf NegInf = NaN"
| "js_add NegInf PosInf = NaN"
| "js_add PosInf y = PosInf"
| "js_add x PosInf = PosInf"
| "js_add NegInf y = NegInf"
| "js_add x NegInf = NegInf"

definition js_sub :: "jsnum \<Rightarrow> jsnum \<Rightarrow> jsnum" where
  "js_sub x y = js_add x (js_neg y)"

fun js_mul :: "jsnum \<Rightarrow> jsnum \<Rightarrow> jsnum" where
  "js_mul (Num a) (Num b) = Num (a * b)"
| "js_mul NaN y = NaN"
| "js_mul x NaN = NaN"
| "js_mul PosInf (Num b) = (if b = 0 then NaN else if 0 < b then PosInf else NegInf)"
| "js_mul NegInf (Num b) = (if b = 0 then NaN else if 0 < b then NegInf else PosInf)"
| "js_mul (Num a) PosInf = (if a = 0 then NaN else if 0 < a then PosInf else NegInf)"
| "js_mul (Num a) NegInf = (if a = 0 then NaN else if 0 < a then NegInf else PosInf)"
| "js_mul PosInf PosInf = PosInf"
| "js_mul PosInf NegInf = NegInf"
| "js_mul NegInf PosInf = NegInf"
| "js_mul NegInf NegInf = PosInf"

fun js_div :: "jsnum \<Rightarrow> jsnum \<Rightarrow> jsnum" where
  "js_div (Num a) (Num b) =
     (if b \<noteq> 0 then Num (a / b)
      else if 0 < a then PosInf else if a < 0 then NegInf else NaN)"
| "js_div NaN y = NaN"
| "js_div x NaN = NaN"
| "js_div PosInf (Num b) = (if 0 \<le> b then PosInf else NegInf)"
| "js_div NegInf (Num b) = (if 0 \<le> b then NegInf else PosInf)"
| "js_div (Num a) PosInf = Num 0"
| "js_div (Num a) NegInf = Num 0"
| "js_div PosInf y = NaN"
| "js_div NegInf y = NaN"

fun js_abs :: "jsnum \<Rightarrow> jsnum" where
  "js_abs (Num a) = Num \<bar>a\<bar>"
| "js_abs PosInf = PosInf"
| "js_abs NegInf = PosInf"
| "js_abs NaN = NaN"

text \<open>\<open>Math.max\<close> of two arguments: \<open>NaN\<close> when either is.\<close>

fun js_max :: "jsnum \<Rightarrow> jsnum \<Rightarrow> jsnum" where
  "js_max (Num a) (Num b) = Num (max a b)"
| "js_max NaN y = NaN"
| "js_max x NaN = NaN"
| "js_max PosInf y = PosInf"
| "js_max x PosInf = PosInf"
| "js_max NegInf y = y"
| "js_max x NegInf = x"

fun js_round :: "jsnum \<Rightarrow> jsnum" where
  "js_round (Num a) = Num (Math_round a)"
| "js_round x = x"

subsection \<open>Overview metrics\<close>

definition totalAllocated :: "Budget list \<Rightarrow> real" where
  "totalAllocated bs = foldl (\<lambda>s b. s + allocated b) 0 bs"

definition totalSpent :: "Budget list \<Rightarrow> real" where
  "totalSpent bs = foldl (\<lambda>s b. s + Budget.spent b) 0 bs"

definition overallUtilization :: "Budget list \<Rightarrow> jsnum" where
  "overallUtilization bs = js_mul (js_div (Num (totalSpent bs)) (Num (totalAllocated bs))) (Num 100)"

text \<open>\<open>(b.spent / b.allocated) * 100\<close>, the callback of \<open>budgets.map\<close> in \<open>transparencyIndex\<close>.\<close>

definition utilization :: "Budget \<Rightarrow> jsnum" where
  "utilization b = js_mul (js_div (Num (Budget.spent b)) (Num (allocated b))) (Num 100)"

definition transparencyIndex :: "Budget list \<Rightarrow> IrregularityReport list \<Rightarrow> jsnum" where
  "transparencyIndex bs rs =
    (let utilizations = map utilization bs;
         avgDeviation =
           js_div (foldl (\<lambda>s u. js_add s (js_abs (js_sub u (Num 60)))) (Num 0) utilizations)
                  (Num (real (length utilizations)));
         norm = js_div (js_max (Num 0) (js_sub (Num 100) avgDeviation)) (Num 100);
         resolved = length (filter (\<lambda>r. IrregularityReport.status r = Resolved) rs);
         resolutionRatio =
           (if length rs \<noteq> 0 then js_div (Num (real resolved)) (Num (real (length rs)))
            else Num 0.5)
     in js_round (js_mul (js_add (js_mul (Num 0.6) norm) (js_mul (Num 0.4) resolutionRatio))
                         (Num 100)))"

subsection \<open>Filtering expenditures\<close>

text \<open>
  \<open>toLowerCase\<close> and the parsing of a date string to milliseconds are the platform's and
  are parameters; \<open>a.includes(b)\<close> is \<open>sublist b a\<close>. An optional string is falsy
  when it is absent or empty. \<open>Array.prototype.sort\<close> is stable.
\<close>

fun truthy :: "string option \<Rightarrow> bool" where
  "truthy None = False"
| "truthy (Some s) = (s \<noteq> [])"

definition filteredExpenditures ::
  "(string \<Rightarrow> string) \<Rightarrow> (string \<Rightarrow> real) \<Rightarrow> Expenditure list \<Rightarrow> Project list \<Rightarrow>
   string \<Rightarrow> string \<Rightarrow> string \<Rightarrow> string \<Rightarrow> Expenditure list" where
  "filteredExpenditures toLowerCase getTime expenditures projs search filterDept filterRegion filterCategory =
    (let data0 = expenditures;
         data1 = (if search \<noteq> [] then
                    filter (\<lambda>e. sublist (toLowerCase search) (toLowerCase (Expenditure.description e))
                              \<or> sublist (toLowerCase search) (toLowerCase (Expenditure.department e))) data0
                  else data0);
         data2 = (if filterDept \<noteq> ''All'' then
                    filter (\<lambda>e. Expenditure.department e = filterDept) data1
                  else data1);
         data3 = (if filterRegion \<noteq> ''All'' then
                    (let regionProjects =
                           set (map Project.id (filter (\<lambda>p. Project.region p = filterRegion) projs))
                     in filter (\<lambda>e. \<not> truthy (Expenditure.projectId e)
                                 \<or> (case Expenditure.projectId e of None \<Rightarrow> False
                                     | Some pid \<Rightarrow> pid \<in> regionProjects)) data2)
                  else data2);
         data4 = (if filterCategory \<noteq> ''All'' then
                    filter (\<lambda>e. Expenditure.category e = filterCategory) data3
                  else data3)
     in sort_key (\<lambda>e. - getTime (date e)) data4)"

subsection \<open>Report workflow\<close>

record page =
  showReportModal :: bool
  showReportConfirmation :: bool
  reportDraft :: ReportDraft
  reports :: "IrregularityReport list"

definition defaultDraft :: ReportDraft where
  "defaultDraft =
    \<lparr>ReportDraft.id = None, ReportDraft.type = Some ''Spending Concern'',
     ReportDraft.subject = None, ReportDraft.description = None,
     ReportDraft.department = None, ReportDraft.projectId = None,
     ReportDraft.createdAt = None, ReportDraft.status = None,
     ReportDraft.severity = Some Medium, ReportDraft.reference = None\<rparr>"

definition initialPage :: page where
  "initialPage = \<lparr>showReportModal = False, showReportConfirmation = False,
                   reportDraft = defaultDraft, reports = []\<rparr>"

text \<open>The decimal digits of \<open>Date.now()\<close>, as \<open>"r" + Date.now()\<close> appends them.\<close>

fun decimal :: "nat \<Rightarrow> string" where
  "decimal n =
     (if n < 10 then [''0123456789'' ! n]
      else decimal (n div 10) @ [''0123456789'' ! (n mod 10)])"

declare decimal.simps [simp del]

definition submitReport :: "page \<Rightarrow> page" where
  "submitReport st =
    (if \<not> truthy (ReportDraft.subject (reportDraft st))
        \<or> \<not> truthy (ReportDraft.description (reportDraft st))
     then st
     else st\<lparr>showReportConfirmation := True\<rparr>)"

text \<open>
  \<open>confirmSubmitReport\<close>: \<open>ms\<close> is the value of \<open>Date.now()\<close> and \<open>ts\<close> the value of
  \<open>new Date().toISOString()\<close>.
\<close>

definition newReport :: "nat \<Rightarrow> string \<Rightarrow> ReportDraft \<Rightarrow> IrregularityReport" where
  "newReport ms ts d =
    \<lparr>IrregularityReport.id = ''r'' @ decimal ms,
     IrregularityReport.type =
       (case ReportDraft.type d of None \<Rightarrow> ''Spending Concern''
        | Some v \<Rightarrow> if v = [] then ''Spending Concern'' else v),
     IrregularityReport.subject = ReportDraft.subject d,
     IrregularityReport.description = ReportDraft.description d,
     IrregularityReport.department = ReportDraft.department d,
     IrregularityReport.projectId = ReportDraft.projectId d,
     IrregularityReport.createdAt = ts,
     IrregularityReport.status = Submitted,
     IrregularityReport.severity =
       (case ReportDraft.severity d of None \<Rightarrow> Medium | Some v \<Rightarrow> v),
     IrregularityReport.reference = ReportDraft.reference d\<rparr>"

definition confirmSubmitReport :: "nat \<Rightarrow> string \<Rightarrow> page \<Rightarrow> page" where
  "confirmSubmitReport ms ts st =
    st\<lparr>reports := newReport ms ts (reportDraft st) # reports st,
       showReportModal := False,
       showReportConfirmation := False,
       reportDraft := defaultDraft\<rparr>"

definition cancelSubmitReport :: "page \<Rightarrow> page" where
  "cancelSubmitReport st = st\<lparr>showReportConfirmation := False\<rparr>"

subsection \<open>Concrete inputs\<close>

text \<open>Sources that return the same value at every call, and the world before any call.\<close>

definition constDraws :: "real \<Rightarrow> nat \<Rightarrow> real" where
  "constDraws c n = c"

definition constClock :: "string \<Rightarrow> nat \<Rightarrow> string" where
  "constClock t n = t"

definition world0 :: world where
  "world0 = \<lparr>rpos = 0, cpos = 0\<rparr>"

text \<open>
  A sequence of draws under which, tick after tick, only the first sample project is
  updated. A tick of the sample data then reads twenty draws: the gate of the first
  project (\<open>0.1\<close>, so it is updated), its increment draw \<open>a\<close>, its spend factor draw, its
  risk draw \<open>c\<close>, and the gates of the other eight projects and of the eight budgets
  (\<open>0.99\<close>, so none is updated).
\<close>

definition soloDraws :: "real \<Rightarrow> real \<Rightarrow> nat \<Rightarrow> real" where
  "soloDraws a c n =
     (if n mod 20 = 0 then 1 / 10 else if n mod 20 = 1 then a
      else if n mod 20 = 3 then c else 99 / 100)"

text \<open>The first sample project after \<open>n\<close> such updates.\<close>

primrec soloP :: "real \<Rightarrow> real \<Rightarrow> (nat \<Rightarrow> string) \<Rightarrow> string \<Rightarrow> nat \<Rightarrow> Project" where
  "soloP a c clk tp 0 = hd (seedProjects tp)"
| "soloP a c clk tp (Suc n) = updateProject a (99 / 100) (clk n) c (soloP a c clk tp n)"

text \<open>A project entered with more spent than budgeted, and one that has reached 100.\<close>

definition overBudgetProject :: Project where
  "overBudgetProject =
    \<lparr>id = ''px'', name = ''Over'', department = ''Health'', budget = 100, spent = 150,
     status = OnTrack, progress = 10, startDate = ''2024-01-01'', endDate = ''2025-01-01'',
     region = ''Rural'', description = ''d'', updatedAt = ''t0'', risk = 20\<rparr>"

definition finishedProject :: Project where
  "finishedProject =
    \<lparr>id = ''pz'', name = ''Done'', department = ''Health'', budget = 100, spent = 80,
     status = Delayed, progress = 100, startDate = ''2024-01-01'', endDate = ''2025-01-01'',
     region = ''Rural'', description = ''d'', updatedAt = ''t0'', risk = 50\<rparr>"

text \<open>Budgets with nothing allocated: nothing spent either, and something spent.\<close>

definition zeroBudget :: Budget where
  "zeroBudget =
    \<lparr>Budget.id = ''b0'', Budget.department = ''Health'', Budget.category = ''Economic'',
     Budget.allocated = 0, Budget.spent = 0, Budget.region = ''Rural'',
     Budget.lastUpdated = ''t0''\<rparr>"

definition unfundedBudget :: Budget where
  "unfundedBudget =
    \<lparr>Budget.id = ''b9'', Budget.department = ''Health'', Budget.category = ''Economic'',
     Budget.allocated = 0, Budget.spent = 5, Budget.region = ''Rural'',
     Budget.lastUpdated = ''t0''\<rparr>"

text \<open>The finite values that are not negative, with \<open>Infinity\<close>.\<close>

definition nonnegExt :: "jsnum set" where
  "nonnegExt = {x. x = PosInf \<or> (\<exists>r. 0 \<le> r \<and> x = Num r)}"

text \<open>
  Three expenditures: one of the first sample project, one whose \<open>projectId\<close> is the id
  of no sample project, and one with no \<open>projectId\<close>; platform functions that leave a
  string as it is and date every string at 0.
\<close>

definition orphanExpenditure :: Expenditure where
  "orphanExpenditure =
    \<lparr>Expenditure.id = ''e1'', Expenditure.projectId = Some ''p404'',
     Expenditure.department = ''Health'', Expenditure.description = ''Labor expense'',
     amount = 100, date = ''2024-05-01'', Expenditure.category = ''Labor''\<rparr>"

definition unassignedExpenditure :: Expenditure where
  "unassignedExpenditure =
    \<lparr>Expenditure.id = ''e2'', Expenditure.projectId = None,
     Expenditure.department = ''Health'', Expenditure.description = ''Training expense'',
     amount = 300, date = ''2024-05-01'', Expenditure.category = ''Training''\<rparr>"

definition clinicExpenditure :: Expenditure where
  "clinicExpenditure =
    \<lparr>Expenditure.id = ''p1-tx0'', Expenditure.projectId = Some ''p1'',
     Expenditure.department = ''Health'', Expenditure.description = ''Procurement expense'',
     amount = 20000, date = ''2024-05-01'', Expenditure.category = ''Procurement''\<rparr>"

definition sameCase :: "string \<Rightarrow> string" where
  "sameCase s = s"

definition epochZero :: "string \<Rightarrow> real" where
  "epochZero s = 0"

text \<open>
  A page waiting for confirmation whose list already holds a report created at
  millisecond 1700000000000.
\<close>

definition earlierReport :: IrregularityReport where
  "earlierReport =
    \<lparr>IrregularityReport.id = ''r1700000000000'', IrregularityReport.type = ''Fraud Suspicion'',
     IrregularityReport.subject = Some ''first'', IrregularityReport.description = Some ''text'',
     IrregularityReport.department = None, IrregularityReport.projectId = None,
     IrregularityReport.createdAt = ''2023-11-14T22:13:20.000Z'',
     IrregularityReport.status = Submitted, IrregularityReport.severity = High,
     IrregularityReport.reference = None\<rparr>"

definition pendingPage :: page where
  "pendingPage =
    \<lparr>showReportModal = True, showReportConfirmation = True,
     reportDraft = defaultDraft\<lparr>ReportDraft.subject := Some ''second'',
                                ReportDraft.description := Some ''text''\<rparr>,
     reports = [earlierReport]\<rparr>"

section \<open>Properties\<close>

subsection \<open>The map that threads the world\<close>

lemma mapW_Cons:
  "mapW f (x # xs) w =
     (fst (f x w) # fst (mapW f xs (snd (f x w))), snd (mapW f xs (snd (f x w))))"
  by (simp add: split_beta Let_def)

lemma mapW_length: "length (fst (mapW f xs w)) = length xs"
  by (induction xs arbitrary: w) (simp_all add: mapW_Cons del: mapW.simps(2))

lemma mapW_list_all2:
  "(\<And>x w. x \<in> set xs \<Longrightarrow> R x (fst (f x w))) \<Longrightarrow> list_all2 R xs (fst (mapW f xs w))"
  by (induction xs arbitrary: w) (simp_all add: mapW_Cons del: mapW.simps(2))

lemma projects_tick:
  "projects (tick rnd clk s) = fst (mapW (tickProject rnd clk) (projects s) (env s))"
  by (simp add: tick_def split_beta Let_def)

lemma budgets_tick:
  "budgets (tick rnd clk s) =
     fst (mapW (tickBudget rnd clk) (budgets s) (snd (mapW (tickProject rnd clk) (projects s) (env s))))"
  by (simp add: tick_def split_beta Let_def)

lemma ticks_0: "ticks rnd clk 0 s = s" by (simp add: ticks_def)

lemma ticks_Suc: "ticks rnd clk (Suc n) s = tick rnd clk (ticks rnd clk n s)" by (simp add: ticks_def)

subsection \<open>One callback, one tick\<close>

lemma tickProject_skip:
  "\<not> (rnd (rpos w) < 0.2 \<and> progress p < 100) \<Longrightarrow>
   tickProject rnd clk p w = (p, w\<lparr>rpos := rpos w + 1\<rparr>)"
  by (auto simp add: tickProject_def Math_random_def)

lemma tickProject_upd:
  "rnd (rpos w) < 0.2 \<Longrightarrow> progress p < 100 \<Longrightarrow>
   tickProject rnd clk p w =
     (updateProject (rnd (rpos w + 1)) (rnd (rpos w + 2)) (clk (cpos w)) (rnd (rpos w + 3)) p,
      w\<lparr>rpos := rpos w + 4, cpos := cpos w + 1\<rparr>)"
  by (simp add: tickProject_def Math_random_def nowISO_def Let_def numeral_3_eq_3)

lemma tickBudget_skip:
  "\<not> rnd (rpos w) < 0.15 \<Longrightarrow> tickBudget rnd clk b w = (b, w\<lparr>rpos := rpos w + 1\<rparr>)"
  by (simp add: tickBudget_def Math_random_def)

lemma tickBudget_upd:
  "rnd (rpos w) < 0.15 \<Longrightarrow>
   tickBudget rnd clk b w =
     (updateBudget (rnd (rpos w + 1)) (clk (cpos w)) b, w\<lparr>rpos := rpos w + 2, cpos := cpos w + 1\<rparr>)"
  by (simp add: tickBudget_def Math_random_def nowISO_def Let_def)

lemma tickProject_cases:
  "fst (tickProject rnd clk p w) = p \<or>
   (progress p < 100 \<and> (\<exists>i j k t. fst (tickProject rnd clk p w) = updateProject (rnd i) (rnd j) t (rnd k) p))"
proof (cases "rnd (rpos w) < 0.2 \<and> progress p < 100")
  case True
  then show ?thesis using tickProject_upd[of rnd w p clk] by auto
next
  case False
  then show ?thesis by (simp add: tickProject_skip)
qed

lemma tickBudget_cases:
  "fst (tickBudget rnd clk b w) = b \<or> (\<exists>i t. fst (tickBudget rnd clk b w) = updateBudget (rnd i) t b)"
proof (cases "rnd (rpos w) < 0.15")
  case True
  then show ?thesis using tickBudget_upd[of rnd w clk b] by auto
next
  case False
  then show ?thesis by (simp add: tickBudget_skip)
qed

lemma tickProject_done: "100 \<le> progress p \<Longrightarrow> fst (tickProject rnd clk p w) = p"
  by (simp add: tickProject_skip)

lemma Math_round_nonneg: "0 \<le> x \<Longrightarrow> 0 \<le> Math_round x"
  by (simp add: Math_round_def)

lemma updateBudget_spent:
  assumes "0 \<le> u" "0 \<le> allocated b" "Budget.spent b \<le> allocated b * 1.15"
  shows "Budget.spent b \<le> Budget.spent (updateBudget u t b)"
    and "Budget.spent (updateBudget u t b) \<le> allocated b * 1.15"
proof -
  have "0 \<le> allocated b * 0.0005 * u * 50" using assms by simp
  then have d: "0 \<le> Math_round (allocated b * 0.0005 * u * 50)"
    by (rule Math_round_nonneg)
  show "Budget.spent b \<le> Budget.spent (updateBudget u t b)"
    using d assms(3) unfolding updateBudget_def Let_def by simp
  show "Budget.spent (updateBudget u t b) \<le> allocated b * 1.15"
    unfolding updateBudget_def Let_def by (auto simp: min_def)
qed

subsection \<open>Invariants of the ticker\<close>

lemma mapW_inv:
  "list_all P xs \<Longrightarrow> (\<And>x w. P x \<Longrightarrow> P (fst (f x w)) \<and> R x (fst (f x w))) \<Longrightarrow>
   list_all P (fst (mapW f xs w)) \<and> list_all2 R xs (fst (mapW f xs w))"
  by (induction xs arbitrary: w) (simp_all add: mapW_Cons del: mapW.simps(2))

lemma list_all2_map_eq: "list_all2 (\<lambda>x y. f y = f x) xs ys \<Longrightarrow> map f ys = map f xs"
  by (induction xs ys rule: list_all2_induct) simp_all

lemma updateProject_frame:
  "(Project.id (updateProject u1 u2 t u3 p), name (updateProject u1 u2 t u3 p),
    Project.department (updateProject u1 u2 t u3 p), budget (updateProject u1 u2 t u3 p),
    Project.region (updateProject u1 u2 t u3 p), startDate (updateProject u1 u2 t u3 p),
    endDate (updateProject u1 u2 t u3 p), Project.description (updateProject u1 u2 t u3 p))
   = (Project.id p, name p, Project.department p, budget p, Project.region p, startDate p,
      endDate p, Project.description p)"
  by (simp add: updateProject_def Let_def)

lemma updateBudget_frame:
  "(Budget.id (updateBudget u t b), Budget.department (updateBudget u t b),
    Budget.category (updateBudget u t b), allocated (updateBudget u t b),
    Budget.region (updateBudget u t b))
   = (Budget.id b, Budget.department b, Budget.category b, allocated b, Budget.region b)"
  by (simp add: updateBudget_def Let_def)

lemma tick_frozen:
  "list_all2 (\<lambda>p p'. 100 \<le> progress p \<longrightarrow> p' = p) (projects s) (projects (tick rnd clk s))"
  unfolding projects_tick by (rule mapW_list_all2) (simp add: tickProject_done)

lemma updateProject_completed:
  "status (updateProject u1 u2 t u3 p) = (if 100 \<le> progress p + u1 * 4 then Completed else status p)
   \<and> progress (updateProject u1 u2 t u3 p) = clamp (progress p + u1 * 4) 0 100"
  by (simp add: updateProject_def Let_def)

lemma tickProject_completed_inv:
  assumes "status p = Completed \<longrightarrow> 100 \<le> progress p"
  shows "status (fst (tickProject rnd clk p w)) = Completed \<longrightarrow> 100 \<le> progress (fst (tickProject rnd clk p w))"
  using tickProject_cases[of rnd clk p w] assms
  by (auto simp: updateProject_completed clamp_def split: if_splits)

lemma completed_inv_ticks:
  "list_all (\<lambda>p. status p = Completed \<longrightarrow> 100 \<le> progress p) (projects (ticks rnd clk n (seed tb tp)))"
proof (induction n)
  case 0
  show ?case by (simp add: ticks_0 seed_def seedProjects_def)
next
  case (Suc n)
  show ?case unfolding ticks_Suc projects_tick
    using mapW_inv[where R="\<lambda>x y. True", OF Suc] tickProject_completed_inv by simp
qed

lemma tickBudget_inv:
  assumes "unit_draws rnd" "0 \<le> allocated b \<and> Budget.spent b \<le> allocated b * 1.15"
  shows "(0 \<le> allocated (fst (tickBudget rnd clk b w)) \<and>
          Budget.spent (fst (tickBudget rnd clk b w)) \<le> allocated (fst (tickBudget rnd clk b w)) * 1.15)
       \<and> (Budget.id (fst (tickBudget rnd clk b w)) = Budget.id b \<and> Budget.spent b \<le> Budget.spent (fst (tickBudget rnd clk b w)))"
proof -
  from tickBudget_cases[of rnd clk b w] show ?thesis
  proof
    assume "fst (tickBudget rnd clk b w) = b"
    then show ?thesis using assms(2) by simp
  next
    assume "\<exists>i t. fst (tickBudget rnd clk b w) = updateBudget (rnd i) t b"
    then obtain i t where e: "fst (tickBudget rnd clk b w) = updateBudget (rnd i) t b" by blast
    have u: "0 \<le> rnd i" using assms(1) by (simp add: unit_draws_def)
    have a: "allocated (updateBudget (rnd i) t b) = allocated b"
      and d: "Budget.id (updateBudget (rnd i) t b) = Budget.id b"
      using updateBudget_frame[of "rnd i" t b] by simp_all
    show ?thesis unfolding e a d
      using updateBudget_spent[of "rnd i" b t] u assms(2) by simp
  qed
qed

lemma budget_inv_ticks:
  assumes "unit_draws rnd"
  shows "list_all (\<lambda>b. 0 \<le> allocated b \<and> Budget.spent b \<le> allocated b * 1.15) (budgets (ticks rnd clk n (seed tb tp)))"
proof (induction n)
  case 0
  show ?case by (simp add: ticks_0 seed_def seedBudgets_def)
next
  case (Suc n)
  show ?case unfolding ticks_Suc budgets_tick
    using mapW_inv[where R="\<lambda>x y. True", OF Suc] tickBudget_inv[OF assms] by simp
qed

lemma updateProject_risk_floor:
  "0 \<le> u3 \<Longrightarrow> 10 \<le> risk p \<Longrightarrow> 10 \<le> risk (updateProject u1 u2 t u3 p)"
  by (simp add: updateProject_def Let_def)

lemma tickProject_risk_floor:
  assumes "unit_draws rnd" and "10 \<le> risk p"
  shows "10 \<le> risk (fst (tickProject rnd clk p w))"
proof -
  from tickProject_cases[of rnd clk p w] show ?thesis
  proof
    assume "fst (tickProject rnd clk p w) = p"
    then show ?thesis using assms(2) by simp
  next
    assume "progress p < 100 \<and>
      (\<exists>i j k t. fst (tickProject rnd clk p w) = updateProject (rnd i) (rnd j) t (rnd k) p)"
    then obtain i j k t where
      e: "fst (tickProject rnd clk p w) = updateProject (rnd i) (rnd j) t (rnd k) p" by blast
    have "0 \<le> rnd k" using assms(1) by (simp add: unit_draws_def)
    then show ?thesis unfolding e using assms(2) by (rule updateProject_risk_floor)
  qed
qed

lemma risk_floor_ticks:
  assumes "unit_draws rnd"
  shows "list_all (\<lambda>p. 10 \<le> risk p) (projects (ticks rnd clk n (seed tb tp)))"
proof (induction n)
  case 0
  show ?case by (simp add: ticks_0 seed_def seedProjects_def)
next
  case (Suc n)
  show ?case unfolding ticks_Suc projects_tick
    using mapW_inv[where R="\<lambda>x y. True", OF Suc] tickProject_risk_floor[OF assms] by simp
qed

subsection \<open>Runs in which only the first sample project is updated\<close>

lemma unit_draws_solo: "0 \<le> a \<Longrightarrow> a < 1 \<Longrightarrow> 0 \<le> c \<Longrightarrow> c < 1 \<Longrightarrow> unit_draws (soloDraws a c)"
  by (simp add: unit_draws_def soloDraws_def)

lemma soloDraws_off:
  "j < 20 \<Longrightarrow> soloDraws a c (20 * k + j) =
     (if j = 0 then 1 / 10 else if j = 1 then a else if j = 3 then c else 99 / 100)"
  by (simp add: soloDraws_def)

lemma soloDraws_at:
  "soloDraws a c (20 * k) = 1 / 10"
  "soloDraws a c (20 * k + 1) = a"
  "soloDraws a c (20 * k + 2) = 99 / 100"
  "soloDraws a c (20 * k + 3) = c"
  using soloDraws_off[of 0 a c k] soloDraws_off[of 1 a c k] soloDraws_off[of 2 a c k]
    soloDraws_off[of 3 a c k] by simp_all

lemma soloDraws_rest: "4 \<le> j \<Longrightarrow> j < 20 \<Longrightarrow> soloDraws a c (20 * k + j) = 99 / 100"
  using soloDraws_off[of j a c k] by simp

lemma mapW_projects_skip:
  "(\<And>i. i < length ps \<Longrightarrow> \<not> rnd (rpos w + i) < 0.2) \<Longrightarrow>
   mapW (tickProject rnd clk) ps w = (ps, w\<lparr>rpos := rpos w + length ps\<rparr>)"
proof (induction ps arbitrary: w)
  case Nil
  show ?case by simp
next
  case (Cons p ps)
  have h: "\<not> rnd (rpos w) < 0.2" using Cons.prems[of 0] by simp
  have t: "tickProject rnd clk p w = (p, w\<lparr>rpos := rpos w + 1\<rparr>)"
    using h by (simp add: tickProject_skip)
  have "mapW (tickProject rnd clk) ps (w\<lparr>rpos := rpos w + 1\<rparr>)
        = (ps, (w\<lparr>rpos := rpos w + 1\<rparr>)\<lparr>rpos := rpos (w\<lparr>rpos := rpos w + 1\<rparr>) + length ps\<rparr>)"
  proof (rule Cons.IH)
    fix i assume "i < length ps"
    then show "\<not> rnd (rpos (w\<lparr>rpos := rpos w + 1\<rparr>) + i) < 0.2"
      using Cons.prems[of "Suc i"] by simp
  qed
  then show ?case using t by (simp add: mapW_Cons del: mapW.simps(2))
qed

lemma mapW_budgets_skip:
  "(\<And>i. i < length bs \<Longrightarrow> \<not> rnd (rpos w + i) < 0.15) \<Longrightarrow>
   mapW (tickBudget rnd clk) bs w = (bs, w\<lparr>rpos := rpos w + length bs\<rparr>)"
proof (induction bs arbitrary: w)
  case Nil
  show ?case by simp
next
  case (Cons b bs)
  have h: "\<not> rnd (rpos w) < 0.15" using Cons.prems[of 0] by simp
  have t: "tickBudget rnd clk b w = (b, w\<lparr>rpos := rpos w + 1\<rparr>)"
    using h by (simp add: tickBudget_skip)
  have "mapW (tickBudget rnd clk) bs (w\<lparr>rpos := rpos w + 1\<rparr>)
        = (bs, (w\<lparr>rpos := rpos w + 1\<rparr>)\<lparr>rpos := rpos (w\<lparr>rpos := rpos w + 1\<rparr>) + length bs\<rparr>)"
  proof (rule Cons.IH)
    fix i assume "i < length bs"
    then show "\<not> rnd (rpos (w\<lparr>rpos := rpos w + 1\<rparr>) + i) < 0.15"
      using Cons.prems[of "Suc i"] by simp
  qed
  then show ?case using t by (simp add: mapW_Cons del: mapW.simps(2))
qed

lemma solo_tick:
  assumes "progress p < 100" and "length ps = 8" and "length bs = 8"
  shows "tick (soloDraws a c) clk \<lparr>projects = p # ps, budgets = bs, env = \<lparr>rpos = 20 * k, cpos = n\<rparr>\<rparr>
       = \<lparr>projects = updateProject a (99 / 100) (clk n) c p # ps, budgets = bs,
          env = \<lparr>rpos = 20 * Suc k, cpos = Suc n\<rparr>\<rparr>"
proof -
  let ?r = "soloDraws a c"
  have 1: "tickProject ?r clk p \<lparr>rpos = 20 * k, cpos = n\<rparr>
           = (updateProject a (99 / 100) (clk n) c p, \<lparr>rpos = 20 * k + 4, cpos = Suc n\<rparr>)"
    using assms(1) tickProject_upd[of ?r "\<lparr>rpos = 20 * k, cpos = n\<rparr>" p clk]
    by (simp only: world.simps soloDraws_at) simp
  have 2: "mapW (tickProject ?r clk) ps \<lparr>rpos = 20 * k + 4, cpos = Suc n\<rparr>
           = (ps, \<lparr>rpos = 20 * k + 12, cpos = Suc n\<rparr>)"
  proof -
    have "mapW (tickProject ?r clk) ps \<lparr>rpos = 20 * k + 4, cpos = Suc n\<rparr>
          = (ps, \<lparr>rpos = 20 * k + 4, cpos = Suc n\<rparr>\<lparr>rpos := rpos \<lparr>rpos = 20 * k + 4, cpos = Suc n\<rparr> + length ps\<rparr>)"
    proof (rule mapW_projects_skip)
      fix i assume "i < length ps"
      then have "i < 8" using assms(2) by simp
      then have "?r (20 * k + (4 + i)) = (99 / 100)" by (intro soloDraws_rest) simp_all
      then show "\<not> ?r (rpos \<lparr>rpos = 20 * k + 4, cpos = Suc n\<rparr> + i) < 0.2"
        by (simp add: add.assoc)
    qed
    then show ?thesis using assms(2) by simp
  qed
  have 3: "mapW (tickBudget ?r clk) bs \<lparr>rpos = 20 * k + 12, cpos = Suc n\<rparr>
           = (bs, \<lparr>rpos = 20 * k + 20, cpos = Suc n\<rparr>)"
  proof -
    have "mapW (tickBudget ?r clk) bs \<lparr>rpos = 20 * k + 12, cpos = Suc n\<rparr>
          = (bs, \<lparr>rpos = 20 * k + 12, cpos = Suc n\<rparr>\<lparr>rpos := rpos \<lparr>rpos = 20 * k + 12, cpos = Suc n\<rparr> + length bs\<rparr>)"
    proof (rule mapW_budgets_skip)
      fix i assume "i < length bs"
      then have "i < 8" using assms(3) by simp
      then have "?r (20 * k + (12 + i)) = (99 / 100)" by (intro soloDraws_rest) simp_all
      then show "\<not> ?r (rpos \<lparr>rpos = 20 * k + 12, cpos = Suc n\<rparr> + i) < 0.15"
        by (simp add: add.assoc)
    qed
    then show ?thesis using assms(3) by simp
  qed
  show ?thesis
    by (simp add: tick_def mapW_Cons 1 2 3 del: mapW.simps(2))
qed

lemma solo_run:
  assumes "\<And>k. k < n \<Longrightarrow> progress (soloP a c clk tp k) < 100"
  shows "ticks (soloDraws a c) clk n (seed tb tp)
       = \<lparr>projects = soloP a c clk tp n # tl (seedProjects tp), budgets = seedBudgets tb,
          env = \<lparr>rpos = 20 * n, cpos = n\<rparr>\<rparr>"
  using assms
proof (induction n)
  case 0
  show ?case by (simp add: ticks_0 seed_def seedProjects_def)
next
  case (Suc n)
  have ih: "ticks (soloDraws a c) clk n (seed tb tp)
       = \<lparr>projects = soloP a c clk tp n # tl (seedProjects tp), budgets = seedBudgets tb,
          env = \<lparr>rpos = 20 * n, cpos = n\<rparr>\<rparr>"
    using Suc by simp
  have p: "progress (soloP a c clk tp n) < 100" using Suc.prems[of n] by simp
  show ?case unfolding ticks_Suc ih
    using solo_tick[OF p, of "tl (seedProjects tp)" "seedBudgets tb" a c clk n n]
    by (simp add: seedProjects_def seedBudgets_def)
qed

lemma soloP_risky:
  "progress (soloP 0 (99 / 100) clk tp n) = 39 \<and> status (soloP 0 (99 / 100) clk tp n) = OnTrack
   \<and> risk (soloP 0 (99 / 100) clk tp n) = 25 + (49 / 25) * real n"
proof (induction n)
  case 0
  show ?case by (simp add: seedProjects_def)
next
  case (Suc n)
  then show ?case by (simp add: updateProject_def Let_def clamp_def field_simps)
qed

lemma soloP_progressing:
  "n \<le> 15 \<Longrightarrow> progress (soloP (99 / 100) (1 / 2) clk tp n) = 39 + (99 / 25) * real n \<and> status (soloP (99 / 100) (1 / 2) clk tp n) = OnTrack"
proof (induction n)
  case 0
  show ?case by (simp add: seedProjects_def)
next
  case (Suc n)
  then have "real n \<le> 14" by simp
  then show ?case using Suc by (simp add: updateProject_def Let_def clamp_def field_simps)
qed

lemma solo_completes:
  "status (projects (ticks (soloDraws (99 / 100) (1 / 2)) clk 16 (seed tb tp)) ! 0) = Completed"
proof -
  have "\<And>k. k < 16 \<Longrightarrow> progress (soloP (99 / 100) (1 / 2) clk tp k) < 100"
  proof -
    fix k :: nat assume "k < 16"
    then have "k \<le> 15" "real k \<le> 15" by simp_all
    then show "progress (soloP (99 / 100) (1 / 2) clk tp k) < 100" using soloP_progressing[of k clk tp] by simp
  qed
  then have "ticks (soloDraws (99 / 100) (1 / 2)) clk 16 (seed tb tp)
       = \<lparr>projects = soloP (99 / 100) (1 / 2) clk tp 16 # tl (seedProjects tp), budgets = seedBudgets tb,
          env = \<lparr>rpos = 20 * 16, cpos = 16\<rparr>\<rparr>" by (rule solo_run)
  moreover have "status (soloP (99 / 100) (1 / 2) clk tp (Suc 15)) = Completed"
    using soloP_progressing[of 15 clk tp] unfolding soloP.simps
    by (simp add: updateProject_completed)
  ultimately show ?thesis by simp
qed

lemma unit_draws_const: "0 \<le> c \<Longrightarrow> c < 1 \<Longrightarrow> unit_draws (constDraws c)"
  by (simp add: unit_draws_def constDraws_def)

lemma updateProject_spent:
  "Project.spent (updateProject u1 u2 t u3 p)
     = min (budget p) (Project.spent p + Math_round (budget p * (u1 * 4 / 100) * (0.8 + u2 * 0.4)))"
  unfolding updateProject_def Let_def by simp

lemma length_projects_ticks: "length (projects (ticks rnd clk n s)) = length (projects s)"
  by (induction n) (simp_all add: ticks_0 ticks_Suc projects_tick mapW_length)

subsection \<open>Metrics on the extended numbers\<close>

lemma utilization_nonzero:
  "allocated b \<noteq> 0 \<Longrightarrow> utilization b = Num (Budget.spent b / allocated b * 100)"
  by (simp add: utilization_def)

lemma utilization_zero:
  "allocated b = 0 \<Longrightarrow>
   utilization b = (if 0 < Budget.spent b then PosInf else if Budget.spent b < 0 then NegInf else NaN)"
  by (simp add: utilization_def)

lemma js_add_NaN_right: "js_add x NaN = NaN"
  by (cases x) simp_all

lemma js_mul_NaN_right: "js_mul x NaN = NaN"
  by (cases x) simp_all

lemma js_max_NaN_right: "js_max x NaN = NaN"
  by (cases x) simp_all

lemma js_sub_NaN_left: "js_sub NaN y = NaN"
  by (simp add: js_sub_def)

lemma deviation_sum_NaN:
  "foldl (\<lambda>s u. js_add s (js_abs (js_sub u (Num 60)))) NaN us = NaN"
  by (induction us) simp_all

lemma deviation_sum_has_NaN:
  "NaN \<in> set us \<Longrightarrow> foldl (\<lambda>s u. js_add s (js_abs (js_sub u (Num 60)))) acc us = NaN"
proof (induction us arbitrary: acc)
  case Nil
  then show ?case by simp
next
  case (Cons u us)
  show ?case
  proof (cases "u = NaN")
    case True
    then show ?thesis by (simp add: js_sub_NaN_left js_add_NaN_right deviation_sum_NaN)
  next
    case False
    then have "NaN \<in> set us" using Cons.prems by auto
    then show ?thesis using Cons.IH by simp
  qed
qed

lemma transparencyIndex_NaN:
  assumes "b \<in> set bs" "allocated b = 0" "Budget.spent b = 0"
  shows "transparencyIndex bs rs = NaN"
proof -
  have "utilization b = NaN" using assms(2,3) by (simp add: utilization_zero)
  then have "NaN \<in> set (map utilization bs)" using assms(1) by force
  then have "foldl (\<lambda>s u. js_add s (js_abs (js_sub u (Num 60)))) (Num 0) (map utilization bs) = NaN"
    by (rule deviation_sum_has_NaN)
  then show ?thesis
    by (simp add: transparencyIndex_def Let_def js_sub_def js_max_NaN_right js_mul_NaN_right)
qed

lemma nonnegExt_add: "x \<in> nonnegExt \<Longrightarrow> y \<in> nonnegExt \<Longrightarrow> js_add x y \<in> nonnegExt"
  by (auto simp: nonnegExt_def)

lemma nonnegExt_deviation: "u \<noteq> NaN \<Longrightarrow> js_abs (js_sub u (Num 60)) \<in> nonnegExt"
  by (cases u) (simp_all add: nonnegExt_def js_sub_def)

lemma nonnegExt_sum:
  "acc \<in> nonnegExt \<Longrightarrow> NaN \<notin> set us \<Longrightarrow>
   foldl (\<lambda>s u. js_add s (js_abs (js_sub u (Num 60)))) acc us \<in> nonnegExt"
proof (induction us arbitrary: acc)
  case Nil
  then show ?case by simp
next
  case (Cons u us)
  have "u \<noteq> NaN" using Cons.prems(2) by auto
  then have "js_add acc (js_abs (js_sub u (Num 60))) \<in> nonnegExt"
    using Cons.prems(1) by (intro nonnegExt_add nonnegExt_deviation)
  moreover have "NaN \<notin> set us" using Cons.prems(2) by simp
  ultimately show ?case using Cons.IH by simp
qed

lemma nonnegExt_div: "x \<in> nonnegExt \<Longrightarrow> 0 < n \<Longrightarrow> js_div x (Num n) \<in> nonnegExt"
  by (auto simp: nonnegExt_def)

lemma norm_unit:
  "x \<in> nonnegExt \<Longrightarrow>
   \<exists>m. 0 \<le> m \<and> m \<le> 1 \<and> js_div (js_max (Num 0) (js_sub (Num 100) x)) (Num 100) = Num m"
proof -
  assume "x \<in> nonnegExt"
  then consider "x = PosInf" | r where "0 \<le> r" "x = Num r" by (auto simp: nonnegExt_def)
  then show ?thesis
  proof cases
    case 1
    then have "js_div (js_max (Num 0) (js_sub (Num 100) x)) (Num 100) = Num 0"
      by (simp add: js_sub_def)
    then show ?thesis by (intro exI[of _ 0]) simp
  next
    case 2
    then have "js_div (js_max (Num 0) (js_sub (Num 100) x)) (Num 100) = Num (max 0 (100 - r) / 100)"
      by (simp add: js_sub_def)
    moreover have "0 \<le> max 0 (100 - r) / 100" by simp
    moreover have "max 0 (100 - r) / 100 \<le> 1" using 2(1) by simp
    ultimately show ?thesis by blast
  qed
qed

lemma utilization_not_NaN:
  "allocated b \<noteq> 0 \<or> Budget.spent b \<noteq> 0 \<Longrightarrow> utilization b \<noteq> NaN"
  by (auto simp: utilization_def)

lemma resolutionRatio_unit:
  "\<exists>q. 0 \<le> q \<and> q \<le> 1 \<and>
     (if length rs \<noteq> 0
      then js_div (Num (real (length (filter P rs)))) (Num (real (length rs)))
      else Num 0.5) = Num q"
proof (cases "length rs = 0")
  case True
  then show ?thesis by (intro exI[of _ "1 / 2"]) simp
next
  case False
  have "length (filter P rs) \<le> length rs" by simp
  then have "real (length (filter P rs)) / real (length rs) \<le> 1" using False by simp
  moreover have "0 \<le> real (length (filter P rs)) / real (length rs)" by simp
  ultimately show ?thesis using False
    by (intro exI[of _ "real (length (filter P rs)) / real (length rs)"]) simp
qed

lemma index_range:
  assumes "0 \<le> m" "m \<le> 1" "0 \<le> q" "q \<le> 1"
  shows "\<exists>k::int. js_round (js_mul (js_add (js_mul (Num 0.6) (Num m)) (js_mul (Num 0.4) (Num q))) (Num 100))
            = Num (of_int k) \<and> 0 \<le> k \<and> k \<le> 100"
proof -
  let ?v = "(0.6 * m + 0.4 * q) * 100"
  have lo: "0 \<le> ?v" using assms by simp
  have hi: "?v \<le> 100" using assms by simp
  have 1: "0 \<le> \<lfloor>?v + 1 / 2\<rfloor>" using lo by simp
  have "?v + 1 / 2 < 101" using hi by simp
  then have "\<lfloor>?v + 1 / 2\<rfloor> < 101" by (simp add: floor_less_iff)
  then have 2: "\<lfloor>?v + 1 / 2\<rfloor> \<le> 100" by simp
  have "js_round (js_mul (js_add (js_mul (Num 0.6) (Num m)) (js_mul (Num 0.4) (Num q))) (Num 100))
        = Num (of_int \<lfloor>?v + 1 / 2\<rfloor>)" by (simp add: Math_round_def)
  then show ?thesis using 1 2 by blast
qed

subsection \<open>The claims\<close>

text \<open>
  Claim C1 (risk stays within 0 and 90 after any number of ticks from the sample data).
  The branch for a project that is neither Delayed nor At Risk only has the floor
  \<open>Math.max(10, ...)\<close> and no ceiling, and an update whose increment draw is \<open>0\<close> leaves
  progress where it was, so such a project can be updated for ever. With the draws
  \<open>soloDraws 0 0.99\<close> (all in \<open>[0, 1)\<close>) the first sample project is updated at each of
  forty ticks with increment \<open>0\<close> and risk step \<open>0.99 * 4 - 2 = 1.96\<close>: its risk, 25 in
  the sample data, is then \<open>25 + 40 * 1.96 = 103.4\<close>, above 90 and above the 100 of the
  interface's comment.
\<close>

theorem risk_exceeds_ceiling:
  "unit_draws (soloDraws 0 (99 / 100)) \<and>
   risk (projects (ticks (soloDraws 0 (99 / 100)) clk 40 (seed tb tp)) ! 0) = 517 / 5"
proof -
  have "\<And>k. k < 40 \<Longrightarrow> progress (soloP 0 (99 / 100) clk tp k) < 100"
    using soloP_risky[of clk tp] by simp
  then have "ticks (soloDraws 0 (99 / 100)) clk 40 (seed tb tp)
       = \<lparr>projects = soloP 0 (99 / 100) clk tp 40 # tl (seedProjects tp), budgets = seedBudgets tb,
          env = \<lparr>rpos = 20 * 40, cpos = 40\<rparr>\<rparr>" by (rule solo_run)
  then have "risk (projects (ticks (soloDraws 0 (99 / 100)) clk 40 (seed tb tp)) ! 0) = 517 / 5"
    using soloP_risky[of clk tp 40] by simp
  then show ?thesis by (simp add: unit_draws_solo)
qed

text \<open>
  Claim C2, amended (a budget with nothing or less than nothing allocated). The metrics
  divide without a guard and have no value standing for "not computable". A budget's
  utilization is the quotient \<open>spent / allocated * 100\<close> whenever \<open>allocated\<close> is not zero
  (also when it is negative); with \<open>allocated = 0\<close> it is \<open>Infinity\<close>, \<open>-Infinity\<close> or
  \<open>NaN\<close> as spent is positive, negative or zero. One budget with nothing allocated and
  nothing spent makes \<open>transparencyIndex\<close> \<open>NaN\<close>, and a total allocation of zero makes
  \<open>overallUtilization\<close> \<open>Infinity\<close>, \<open>-Infinity\<close> or \<open>NaN\<close>.
\<close>

theorem utilization_unguarded:
  "(allocated b \<noteq> 0 \<longrightarrow> utilization b = Num (Budget.spent b / allocated b * 100))
   \<and> (allocated b = 0 \<longrightarrow>
        utilization b = (if 0 < Budget.spent b then PosInf
                         else if Budget.spent b < 0 then NegInf else NaN))
   \<and> (b \<in> set bs \<and> allocated b = 0 \<and> Budget.spent b = 0 \<longrightarrow> transparencyIndex bs rs = NaN)
   \<and> (totalAllocated bs = 0 \<longrightarrow>
        overallUtilization bs = (if 0 < totalSpent bs then PosInf
                                 else if totalSpent bs < 0 then NegInf else NaN))"
  using utilization_nonzero[of b] utilization_zero[of b] transparencyIndex_NaN[of b bs rs]
  by (simp add: overallUtilization_def)

text \<open>
  The amended C2 at the first sample budget (utilization 43), at a budget with 5 spent
  of 0 allocated, and at the sample budgets followed by a budget with 0 spent of 0
  allocated.
\<close>

theorem utilization_unguarded_witness:
  "utilization (hd (seedBudgets ''t0'')) = Num 43
   \<and> utilization unfundedBudget = PosInf
   \<and> transparencyIndex (seedBudgets ''t0'' @ [zeroBudget]) [] = NaN
   \<and> overallUtilization [unfundedBudget] = PosInf"
proof -
  have 1: "allocated (hd (seedBudgets ''t0'')) \<noteq> 0" by (simp add: seedBudgets_def)
  have 2: "allocated unfundedBudget = 0" by (simp add: unfundedBudget_def)
  have 3: "zeroBudget \<in> set (seedBudgets ''t0'' @ [zeroBudget]) \<and> allocated zeroBudget = 0 \<and> Budget.spent zeroBudget = 0"
    by (simp add: zeroBudget_def)
  have 4: "totalAllocated [unfundedBudget] = 0" by (simp add: totalAllocated_def unfundedBudget_def)
  have 5: "totalSpent [unfundedBudget] = 5" by (simp add: totalSpent_def unfundedBudget_def)
  have a: "utilization (hd (seedBudgets ''t0'')) = Num 43"
    using utilization_unguarded[of "hd (seedBudgets ''t0'')" "[]" "[]"] 1 by (simp add: seedBudgets_def)
  have b: "utilization unfundedBudget = PosInf"
    using utilization_unguarded[of unfundedBudget "[]" "[]"] 2 by (simp add: unfundedBudget_def)
  have c: "transparencyIndex (seedBudgets ''t0'' @ [zeroBudget]) [] = NaN"
    using utilization_unguarded[of zeroBudget "seedBudgets ''t0'' @ [zeroBudget]" "[]"] 3 by blast
  have d: "overallUtilization [unfundedBudget] = PosInf"
    using utilization_unguarded[of unfundedBudget "[unfundedBudget]" "[]"] 4 5 by simp
  from a b c d show ?thesis by simp
qed

text \<open>
  Claim C2 as stated fails: for the single budget with \<open>allocated = 0\<close> and \<open>spent = 0\<close>
  the utilization, the overall utilization and the transparency index are all \<open>NaN\<close>.
\<close>

theorem utilization_guard_counterexample:
  "allocated zeroBudget \<le> 0
   \<and> utilization zeroBudget = NaN
   \<and> overallUtilization [zeroBudget] = NaN
   \<and> transparencyIndex [zeroBudget] [] = NaN"
  by (simp add: zeroBudget_def utilization_def overallUtilization_def totalSpent_def
      totalAllocated_def transparencyIndex_def js_sub_def)

text \<open>
  Claim C3, amended (the spent amount of an updated project). For a project with a
  budget that is not negative, a tick that updates the project (gate draw below \<open>0.2\<close>,
  progress below 100) sets spent to \<open>min(budget, spent + extraSpend)\<close> with
  \<open>extraSpend \<ge> 0\<close>; afterwards spent is at most the budget; spent does not decrease
  when it was at most the budget before the tick; and a project whose spent was above
  its budget has it lowered to the budget.
\<close>

theorem project_spent_update:
  assumes "unit_draws rnd" and "0 \<le> budget p"
    and "rnd (rpos w) < 0.2" and "progress p < 100"
  shows "0 \<le> Math_round (budget p * (rnd (rpos w + 1) * 4 / 100) * (0.8 + rnd (rpos w + 2) * 0.4))
    \<and> Project.spent (fst (tickProject rnd clk p w))
        = min (budget p) (Project.spent p +
            Math_round (budget p * (rnd (rpos w + 1) * 4 / 100) * (0.8 + rnd (rpos w + 2) * 0.4)))
    \<and> Project.spent (fst (tickProject rnd clk p w)) \<le> budget p
    \<and> (Project.spent p \<le> budget p \<longrightarrow> Project.spent p \<le> Project.spent (fst (tickProject rnd clk p w)))
    \<and> (budget p < Project.spent p \<longrightarrow> Project.spent (fst (tickProject rnd clk p w)) = budget p)"
proof -
  let ?u1 = "rnd (rpos w + 1)" and ?u2 = "rnd (rpos w + 2)"
  let ?e = "Math_round (budget p * (?u1 * 4 / 100) * (0.8 + ?u2 * 0.4))"
  have u: "0 \<le> ?u1" "0 \<le> ?u2" using assms(1) by (simp_all add: unit_draws_def)
  have "0 \<le> budget p * (?u1 * 4 / 100)" using u(1) assms(2) by simp
  moreover have "0 \<le> 0.8 + ?u2 * 0.4" using u(2) by simp
  ultimately have "0 \<le> budget p * (?u1 * 4 / 100) * (0.8 + ?u2 * 0.4)"
    by (rule mult_nonneg_nonneg)
  then have e: "0 \<le> ?e" by (rule Math_round_nonneg)
  have t: "fst (tickProject rnd clk p w) = updateProject ?u1 ?u2 (clk (cpos w)) (rnd (rpos w + 3)) p"
    using tickProject_upd[of rnd w p clk] assms(3,4) by simp
  have s: "Project.spent (fst (tickProject rnd clk p w)) = min (budget p) (Project.spent p + ?e)"
    unfolding t by (rule updateProject_spent)
  show ?thesis unfolding s using e by (auto simp: min_def)
qed

text \<open>
  The amended C3 at the first sample project, updated by a tick whose draws are all
  \<open>0.1\<close>.
\<close>

theorem project_spent_update_witness:
  "unit_draws (constDraws (1 / 10)) \<and> 0 \<le> budget (hd (seedProjects ''t'')) \<and>
   constDraws (1 / 10) (rpos world0) < 0.2 \<and> progress (hd (seedProjects ''t'')) < 100 \<and>
   Project.spent (fst (tickProject (constDraws (1 / 10)) (constClock ''t'') (hd (seedProjects ''t'')) world0)) \<le> 12000000 \<and>
   4600000 \<le> Project.spent (fst (tickProject (constDraws (1 / 10)) (constClock ''t'') (hd (seedProjects ''t'')) world0))"
proof -
  have 1: "unit_draws (constDraws (1 / 10))" by (simp add: unit_draws_const)
  have 2: "0 \<le> budget (hd (seedProjects ''t''))" by (simp add: seedProjects_def)
  have 3: "constDraws (1 / 10) (rpos world0) < 0.2" by (simp add: constDraws_def)
  have 4: "progress (hd (seedProjects ''t'')) < 100" by (simp add: seedProjects_def)
  show ?thesis
    using project_spent_update[OF 1 2 3 4, of "constClock ''t''"] 1 3
    by (simp add: seedProjects_def)
qed

text \<open>
  Claim C3 as stated fails for a project whose spent already exceeds its budget: with
  budget 100 and spent 150 (and draws in \<open>[0, 1)\<close>), the update lowers spent to 100.
\<close>

theorem project_spent_decreases_counterexample:
  "0 \<le> Project.spent overBudgetProject \<and> unit_draws (constDraws (1 / 10)) \<and>
   Project.spent (fst (tickProject (constDraws (1 / 10)) (constClock ''t1'') overBudgetProject world0)) = 100 \<and>
   Project.spent overBudgetProject = 150"
  by (simp add: unit_draws_const overBudgetProject_def tickProject_def Math_random_def nowISO_def
      constDraws_def constClock_def world0_def updateProject_def Let_def Math_round_def)

text \<open>
  Claim C4 (budgets from the sample data). After any number \<open>n\<close> of ticks, whatever
  the draws in \<open>[0, 1)\<close>, every budget has \<open>spent \<le> allocated * 1.15\<close>, and from tick
  \<open>n\<close> to tick \<open>n + 1\<close> each budget (same position, same identifier) has a spent amount
  that does not decrease.
\<close>

theorem budget_spent_capped_monotone:
  assumes "unit_draws rnd"
  shows "list_all (\<lambda>b. Budget.spent b \<le> allocated b * 1.15) (budgets (ticks rnd clk n (seed tb tp)))
       \<and> list_all2 (\<lambda>b b'. Budget.id b' = Budget.id b \<and> Budget.spent b \<le> Budget.spent b')
           (budgets (ticks rnd clk n (seed tb tp))) (budgets (ticks rnd clk (Suc n) (seed tb tp)))"
proof -
  have i: "list_all (\<lambda>b. 0 \<le> allocated b \<and> Budget.spent b \<le> allocated b * 1.15) (budgets (ticks rnd clk n (seed tb tp)))"
    by (rule budget_inv_ticks[OF assms])
  then have 1: "list_all (\<lambda>b. Budget.spent b \<le> allocated b * 1.15) (budgets (ticks rnd clk n (seed tb tp)))"
    by (simp add: list_all_iff)
  have 2: "list_all2 (\<lambda>b b'. Budget.id b' = Budget.id b \<and> Budget.spent b \<le> Budget.spent b')
           (budgets (ticks rnd clk n (seed tb tp))) (budgets (ticks rnd clk (Suc n) (seed tb tp)))"
    unfolding ticks_Suc budgets_tick
    using mapW_inv[where R="\<lambda>b b'. Budget.id b' = Budget.id b \<and> Budget.spent b \<le> Budget.spent b'", OF i] tickBudget_inv[OF assms] by simp
  from 1 2 show ?thesis by simp
qed

text \<open>
  C4 at the second and third tick of the sample data, every draw being \<open>0.1\<close>.
\<close>

theorem budget_spent_capped_monotone_witness:
  "unit_draws (constDraws (1 / 10))
   \<and> list_all (\<lambda>b. Budget.spent b \<le> allocated b * 1.15)
        (budgets (ticks (constDraws (1 / 10)) (constClock ''t1'') 2 (seed ''t0'' ''t0'')))
   \<and> list_all2 (\<lambda>b b'. Budget.id b' = Budget.id b \<and> Budget.spent b \<le> Budget.spent b')
        (budgets (ticks (constDraws (1 / 10)) (constClock ''t1'') 2 (seed ''t0'' ''t0'')))
        (budgets (ticks (constDraws (1 / 10)) (constClock ''t1'') (Suc 2) (seed ''t0'' ''t0'')))"
proof -
  have 1: "unit_draws (constDraws (1 / 10))" by (simp add: unit_draws_const)
  show ?thesis
    using budget_spent_capped_monotone[OF 1, of "constClock ''t1''" 2 "''t0''" "''t0''"] 1
    by simp
qed

text \<open>
  Claim C5 (a project is Completed only with progress at least 100). In every state
  reached from the sample data by ticks, every project satisfies
  \<open>status = Completed \<longrightarrow> progress \<ge> 100\<close>. A tick that updates a project sets its status
  to Completed exactly when the progress plus the increment is at least 100 and leaves
  the status as it was otherwise (the new progress being that sum clamped to 0..100);
  a tick that does not update the project leaves it as it was.
\<close>

theorem completed_only_at_full_progress:
  "list_all (\<lambda>p. status p = Completed \<longrightarrow> 100 \<le> progress p)
     (projects (ticks rnd clk n (seed tb tp)))
   \<and> (rnd (rpos w) < 0.2 \<and> progress p < 100 \<longrightarrow>
        status (fst (tickProject rnd clk p w))
          = (if 100 \<le> progress p + rnd (rpos w + 1) * 4 then Completed else status p)
        \<and> progress (fst (tickProject rnd clk p w)) = clamp (progress p + rnd (rpos w + 1) * 4) 0 100)
   \<and> (\<not> (rnd (rpos w) < 0.2 \<and> progress p < 100) \<longrightarrow> fst (tickProject rnd clk p w) = p)"
proof -
  have 1: "list_all (\<lambda>p. status p = Completed \<longrightarrow> 100 \<le> progress p)
     (projects (ticks rnd clk n (seed tb tp)))" by (rule completed_inv_ticks)
  have 2: "rnd (rpos w) < 0.2 \<and> progress p < 100 \<longrightarrow>
        status (fst (tickProject rnd clk p w))
          = (if 100 \<le> progress p + rnd (rpos w + 1) * 4 then Completed else status p)
        \<and> progress (fst (tickProject rnd clk p w)) = clamp (progress p + rnd (rpos w + 1) * 4) 0 100"
    using tickProject_upd[of rnd w p clk] by (simp add: updateProject_completed)
  have 3: "\<not> (rnd (rpos w) < 0.2 \<and> progress p < 100) \<longrightarrow> fst (tickProject rnd clk p w) = p"
    using tickProject_skip[of rnd w p clk] by auto
  from 1 2 3 show ?thesis by blast
qed

text \<open>
  C5 at a state where a project is Completed: after sixteen ticks in which the first
  sample project (progress 39) is updated with increment \<open>0.99 * 4 = 3.96\<close>, it is
  Completed and its progress is at least 100. The first of these updates leaves it On
  Track with progress 42.96, and a project with progress 100 is returned as it is.
\<close>

theorem completed_only_at_full_progress_witness:
  "status (projects (ticks (soloDraws (99 / 100) (1 / 2)) (constClock ''t1'') 16 (seed ''t0'' ''t0'')) ! 0) = Completed
   \<and> 100 \<le> progress (projects (ticks (soloDraws (99 / 100) (1 / 2)) (constClock ''t1'') 16 (seed ''t0'' ''t0'')) ! 0)
   \<and> soloDraws (99 / 100) (1 / 2) (rpos world0) < 0.2
   \<and> progress (hd (seedProjects ''t0'')) < 100
   \<and> status (fst (tickProject (soloDraws (99 / 100) (1 / 2)) (constClock ''t1'') (hd (seedProjects ''t0'')) world0)) = OnTrack
   \<and> progress (fst (tickProject (soloDraws (99 / 100) (1 / 2)) (constClock ''t1'') (hd (seedProjects ''t0'')) world0)) = 1074 / 25
   \<and> fst (tickProject (soloDraws (99 / 100) (1 / 2)) (constClock ''t1'') finishedProject world0) = finishedProject"
proof -
  let ?r = "soloDraws (99 / 100) (1 / 2)" and ?c = "constClock ''t1''"
  let ?ps = "projects (ticks ?r ?c 16 (seed ''t0'' ''t0''))"
  have c: "status (?ps ! 0) = Completed" by (rule solo_completes)
  have "length ?ps = 9" by (simp add: length_projects_ticks seed_def seedProjects_def)
  then have "0 < length ?ps" by simp
  then have "status (?ps ! 0) = Completed \<longrightarrow> 100 \<le> progress (?ps ! 0)"
    using completed_only_at_full_progress[of ?r ?c 16 "''t0''" "''t0''"]
    by (simp add: list_all_length)
  then have a: "status (?ps ! 0) = Completed \<and> 100 \<le> progress (?ps ! 0)" using c by simp
  have g: "?r (rpos world0) < 0.2" "?r (rpos world0 + 1) = 99 / 100"
    by (simp_all add: soloDraws_def world0_def)
  have p: "progress (hd (seedProjects ''t0'')) < 100" "progress (hd (seedProjects ''t0'')) = 39"
    "status (hd (seedProjects ''t0'')) = OnTrack"
    by (simp_all add: seedProjects_def)
  have b: "status (fst (tickProject ?r ?c (hd (seedProjects ''t0'')) world0)) = OnTrack
     \<and> progress (fst (tickProject ?r ?c (hd (seedProjects ''t0'')) world0)) = 1074 / 25"
    using completed_only_at_full_progress[of ?r ?c 0 "''t0''" "''t0''" world0 "hd (seedProjects ''t0'')"]
      g p by (simp add: clamp_def)
  have f: "\<not> (?r (rpos world0) < 0.2 \<and> progress finishedProject < 100)"
    by (simp add: finishedProject_def)
  have d: "fst (tickProject ?r ?c finishedProject world0) = finishedProject"
    using completed_only_at_full_progress[of ?r ?c 0 "''t0''" "''t0''" world0 finishedProject] f
    by blast
  from a b d g(1) p(1) show ?thesis by simp
qed

text \<open>
  Claim C6, amended (the transparency index is an integer from 0 to 100). For every
  list of budgets that is not empty and has no budget with both \<open>allocated = 0\<close> and
  \<open>spent = 0\<close>, and for every list of reports, \<open>transparencyIndex\<close> is an integer \<open>k\<close>
  with \<open>0 \<le> k \<le> 100\<close>.
\<close>

theorem transparencyIndex_range:
  assumes "bs \<noteq> []" and "\<forall>b\<in>set bs. allocated b \<noteq> 0 \<or> Budget.spent b \<noteq> 0"
  shows "\<exists>k::int. transparencyIndex bs rs = Num (of_int k) \<and> 0 \<le> k \<and> k \<le> 100"
proof -
  let ?us = "map utilization bs"
  have n: "NaN \<notin> set ?us" using assms(2) utilization_not_NaN by force
  have "Num 0 \<in> nonnegExt" by (simp add: nonnegExt_def)
  then have s: "foldl (\<lambda>s u. js_add s (js_abs (js_sub u (Num 60)))) (Num 0) ?us \<in> nonnegExt"
    using n by (rule nonnegExt_sum)
  have "0 < real (length ?us)" using assms(1) by simp
  then have "js_div (foldl (\<lambda>s u. js_add s (js_abs (js_sub u (Num 60)))) (Num 0) ?us)
               (Num (real (length ?us))) \<in> nonnegExt"
    using s by (intro nonnegExt_div)
  then obtain m where m: "0 \<le> m" "m \<le> 1"
    "js_div (js_max (Num 0) (js_sub (Num 100)
        (js_div (foldl (\<lambda>s u. js_add s (js_abs (js_sub u (Num 60)))) (Num 0) ?us)
               (Num (real (length ?us)))))) (Num 100) = Num m"
    using norm_unit by blast
  obtain q where q: "0 \<le> q" "q \<le> 1"
    "(if length rs \<noteq> 0
      then js_div (Num (real (length (filter (\<lambda>r. IrregularityReport.status r = Resolved) rs))))
             (Num (real (length rs)))
      else Num 0.5) = Num q"
    using resolutionRatio_unit[of rs "\<lambda>r. IrregularityReport.status r = Resolved"] by blast
  have "transparencyIndex bs rs
        = js_round (js_mul (js_add (js_mul (Num 0.6) (Num m)) (js_mul (Num 0.4) (Num q))) (Num 100))"
    unfolding transparencyIndex_def Let_def m(3) q(3) ..
  then show ?thesis using index_range[OF m(1,2) q(1,2)] by simp
qed

text \<open>
  The amended C6 at the sample budgets with no report.
\<close>

theorem transparencyIndex_range_witness:
  "\<exists>k::int. transparencyIndex (seedBudgets ''t0'') [] = Num (of_int k) \<and> 0 \<le> k \<and> k \<le> 100"
proof -
  have 1: "seedBudgets ''t0'' \<noteq> []" by (simp add: seedBudgets_def)
  have 2: "\<forall>b\<in>set (seedBudgets ''t0''). allocated b \<noteq> 0 \<or> Budget.spent b \<noteq> 0"
    by (simp add: seedBudgets_def)
  show ?thesis by (rule transparencyIndex_range[OF 1 2])
qed

text \<open>
  Claim C6 as stated fails for the empty list of budgets: the average deviation is
  \<open>0 / 0\<close>, and the index is \<open>NaN\<close>.
\<close>

theorem transparencyIndex_empty_counterexample:
  "transparencyIndex [] [] = NaN"
  by (simp add: transparencyIndex_def js_sub_def)

text \<open>
  Claim C7 (the region filter on expenditures). An expenditure has no project when its
  \<open>projectId\<close> is absent or the empty string, which is what \<open>!e.projectId\<close> tests and
  what the page means by no project everywhere. With a region filter other than \<open>All\<close>,
  an expenditure of the list is kept exactly when it has no project or some project of
  the projects list with that id has the selected region; with a search string and
  other filters, the region filter adds exactly this condition to the view without it.
  In particular an expenditure whose \<open>projectId\<close> is the id of no project of the list is
  excluded.
\<close>

theorem region_filter_expenditures:
  assumes "filterRegion \<noteq> ''All''"
  shows "(e \<in> set (filteredExpenditures lc gt exps projs [] ''All'' filterRegion ''All'')
          \<longleftrightarrow> e \<in> set exps
              \<and> (\<not> truthy (Expenditure.projectId e)
                 \<or> (\<exists>p\<in>set projs. Some (Project.id p) = Expenditure.projectId e
                                    \<and> Project.region p = filterRegion)))
     \<and> (e \<in> set (filteredExpenditures lc gt exps projs search fd filterRegion fc)
          \<longleftrightarrow> e \<in> set (filteredExpenditures lc gt exps projs search fd ''All'' fc)
              \<and> (\<not> truthy (Expenditure.projectId e)
                 \<or> (\<exists>p\<in>set projs. Some (Project.id p) = Expenditure.projectId e
                                    \<and> Project.region p = filterRegion)))
     \<and> (truthy (Expenditure.projectId e)
          \<and> (\<forall>p\<in>set projs. Some (Project.id p) \<noteq> Expenditure.projectId e)
          \<longrightarrow> e \<notin> set (filteredExpenditures lc gt exps projs search fd filterRegion fc))"
proof (cases "Expenditure.projectId e")
  case None
  then show ?thesis using assms by (auto simp: filteredExpenditures_def Let_def)
next
  case (Some pid)
  then show ?thesis using assms by (auto simp: filteredExpenditures_def Let_def)
qed

text \<open>
  C7 at three expenditures, the sample projects and the filter Rural: the one of project
  p1 (region Rural) and the one with no project are kept, the one whose \<open>projectId\<close>
  matches no project is excluded.
\<close>

theorem region_filter_expenditures_witness:
  "''Rural'' \<noteq> ''All''
   \<and> clinicExpenditure \<in> set (filteredExpenditures sameCase epochZero
        [clinicExpenditure, orphanExpenditure, unassignedExpenditure]
        (seedProjects ''t0'') [] ''All'' ''Rural'' ''All'')
   \<and> unassignedExpenditure \<in> set (filteredExpenditures sameCase epochZero
        [clinicExpenditure, orphanExpenditure, unassignedExpenditure]
        (seedProjects ''t0'') [] ''All'' ''Rural'' ''All'')
   \<and> truthy (Expenditure.projectId orphanExpenditure)
   \<and> orphanExpenditure \<notin> set (filteredExpenditures sameCase epochZero
        [clinicExpenditure, orphanExpenditure, unassignedExpenditure]
        (seedProjects ''t0'') [] ''All'' ''Rural'' ''All'')"
proof -
  let ?es = "[clinicExpenditure, orphanExpenditure, unassignedExpenditure]"
  have 1: "''Rural'' \<noteq> ''All''" by simp
  have c: "\<exists>p\<in>set (seedProjects ''t0''). Some (Project.id p) = Expenditure.projectId clinicExpenditure
            \<and> Project.region p = ''Rural''"
    by (simp add: seedProjects_def clinicExpenditure_def)
  have u: "\<not> truthy (Expenditure.projectId unassignedExpenditure)"
    by (simp add: unassignedExpenditure_def)
  have o: "truthy (Expenditure.projectId orphanExpenditure)"
    "\<forall>p\<in>set (seedProjects ''t0''). Some (Project.id p) \<noteq> Expenditure.projectId orphanExpenditure"
    by (simp_all add: seedProjects_def orphanExpenditure_def)
  have a: "clinicExpenditure \<in> set (filteredExpenditures sameCase epochZero ?es
        (seedProjects ''t0'') [] ''All'' ''Rural'' ''All'')"
    using region_filter_expenditures[OF 1, of clinicExpenditure sameCase epochZero ?es
        "seedProjects ''t0''" "[]" "''All''" "''All''"] c by simp
  have b: "unassignedExpenditure \<in> set (filteredExpenditures sameCase epochZero ?es
        (seedProjects ''t0'') [] ''All'' ''Rural'' ''All'')"
    using region_filter_expenditures[OF 1, of unassignedExpenditure sameCase epochZero ?es
        "seedProjects ''t0''" "[]" "''All''" "''All''"] u by simp
  have d: "orphanExpenditure \<notin> set (filteredExpenditures sameCase epochZero ?es
        (seedProjects ''t0'') [] ''All'' ''Rural'' ''All'')"
    using region_filter_expenditures[OF 1, of orphanExpenditure sameCase epochZero ?es
        "seedProjects ''t0''" "[]" "''All''" "''All''"] o by blast
  from 1 a b d o(1) show ?thesis by simp
qed

text \<open>
  Claim C8, amended (confirming a report). From any page state, and so from the one
  waiting for confirmation, \<open>confirmSubmitReport\<close> puts exactly one new report in front
  of the reports, which stay as they were and in order; closes the modal and the
  confirmation dialog; and resets the draft to severity Medium and type Spending
  Concern. The new report has the identifier \<open>"r"\<close> followed by the decimal digits of
  \<open>Date.now()\<close> (nothing compares it with the identifiers already stored), status
  Submitted and \<open>createdAt\<close> the current time; subject, description, department,
  projectId and reference are the draft's; type is the draft's unless absent or empty,
  then Spending Concern; severity is the draft's unless absent, then Medium.
\<close>

theorem confirm_report:
  "confirmSubmitReport ms ts st =
     \<lparr>showReportModal = False, showReportConfirmation = False, reportDraft = defaultDraft,
      reports = newReport ms ts (reportDraft st) # reports st\<rparr>
   \<and> length (reports (confirmSubmitReport ms ts st)) = Suc (length (reports st))
   \<and> tl (reports (confirmSubmitReport ms ts st)) = reports st
   \<and> IrregularityReport.id (newReport ms ts d) = ''r'' @ decimal ms
   \<and> IrregularityReport.status (newReport ms ts d) = Submitted
   \<and> IrregularityReport.createdAt (newReport ms ts d) = ts
   \<and> IrregularityReport.subject (newReport ms ts d) = ReportDraft.subject d
   \<and> IrregularityReport.description (newReport ms ts d) = ReportDraft.description d
   \<and> IrregularityReport.department (newReport ms ts d) = ReportDraft.department d
   \<and> IrregularityReport.projectId (newReport ms ts d) = ReportDraft.projectId d
   \<and> IrregularityReport.reference (newReport ms ts d) = ReportDraft.reference d
   \<and> IrregularityReport.type (newReport ms ts d)
        = (if truthy (ReportDraft.type d) then the (ReportDraft.type d) else ''Spending Concern'')
   \<and> IrregularityReport.severity (newReport ms ts d)
        = (if ReportDraft.severity d = None then Medium else the (ReportDraft.severity d))
   \<and> ReportDraft.severity defaultDraft = Some Medium
   \<and> ReportDraft.type defaultDraft = Some ''Spending Concern''"
  by (cases st) (auto simp: confirmSubmitReport_def newReport_def defaultDraft_def split: option.splits)

text \<open>
  Claim C8 as stated fails on the fresh identifier: confirming at millisecond
  1700000000000 on a list that holds a report created at that millisecond gives the
  new report the identifier of the stored one.
\<close>

theorem confirm_report_identifier_counterexample:
  "showReportConfirmation pendingPage
   \<and> reports pendingPage = [earlierReport]
   \<and> IrregularityReport.id (hd (reports (confirmSubmitReport 1700000000000 ''2023-11-14T22:13:20.000Z'' pendingPage)))
       = IrregularityReport.id earlierReport"
  by (simp add: pendingPage_def confirmSubmitReport_def newReport_def earlierReport_def decimal.simps)

text \<open>
  Claim C9 (a project whose progress has reached 100 is never modified again). From any
  state, if the project at position \<open>i\<close> has progress at least 100, then after any number
  of ticks the project at position \<open>i\<close> is the same record, field by field (spent, status,
  risk and updatedAt included), whatever its status is.
\<close>

theorem completed_progress_frozen:
  assumes "i < length (projects s)" and "100 \<le> progress (projects s ! i)"
  shows "length (projects (ticks rnd clk n s)) = length (projects s)
         \<and> projects (ticks rnd clk n s) ! i = projects s ! i"
proof (induction n)
  case 0
  show ?case by (simp add: ticks_0)
next
  case (Suc n)
  let ?s = "ticks rnd clk n s"
  have l: "list_all2 (\<lambda>p p'. 100 \<le> progress p \<longrightarrow> p' = p) (projects ?s) (projects (tick rnd clk ?s))"
    by (rule tick_frozen)
  have len: "length (projects (tick rnd clk ?s)) = length (projects ?s)"
    using l by (simp add: list_all2_lengthD)
  have "i < length (projects ?s)" using Suc assms(1) by simp
  then have "100 \<le> progress (projects ?s ! i) \<longrightarrow> projects (tick rnd clk ?s) ! i = projects ?s ! i"
    using list_all2_nthD[OF l, of i] by simp
  then show ?case using Suc assms(2) len by (simp add: ticks_Suc)
qed

text \<open>
  C9 at a Delayed project with progress 100: three ticks whose gate draws are \<open>0.1\<close>
  leave it as it was.
\<close>

theorem completed_progress_frozen_witness:
  "0 < length (projects \<lparr>projects = [finishedProject], budgets = [], env = world0\<rparr>)
   \<and> 100 \<le> progress (projects \<lparr>projects = [finishedProject], budgets = [], env = world0\<rparr> ! 0)
   \<and> projects (ticks (constDraws (1 / 10)) (constClock ''t1'') 3 \<lparr>projects = [finishedProject], budgets = [], env = world0\<rparr>) ! 0
       = finishedProject"
proof -
  have 1: "0 < length (projects \<lparr>projects = [finishedProject], budgets = [], env = world0\<rparr>)" by simp
  have 2: "100 \<le> progress (projects \<lparr>projects = [finishedProject], budgets = [], env = world0\<rparr> ! 0)"
    by (simp add: finishedProject_def)
  show ?thesis
    using completed_progress_frozen[OF 1 2, of "constDraws (1 / 10)" "constClock ''t1''" 3] 1 2
    by simp
qed

text \<open>
  Claim C10 (what a tick leaves unchanged). A tick keeps the number and the order of
  projects and of budgets, and at every position the fields id, name, department,
  budget, region, startDate, endDate, description of the project and id, department,
  category, allocated, region of the budget: only progress, spent, status, updatedAt,
  risk of a project and spent, lastUpdated of a budget can differ.
\<close>

theorem tick_frame:
  "map (\<lambda>p. (Project.id p, name p, Project.department p, budget p, Project.region p,
              startDate p, endDate p, Project.description p)) (projects (tick rnd clk s))
     = map (\<lambda>p. (Project.id p, name p, Project.department p, budget p, Project.region p,
              startDate p, endDate p, Project.description p)) (projects s)
   \<and> map (\<lambda>b. (Budget.id b, Budget.department b, Budget.category b, allocated b,
              Budget.region b)) (budgets (tick rnd clk s))
     = map (\<lambda>b. (Budget.id b, Budget.department b, Budget.category b, allocated b,
              Budget.region b)) (budgets s)
   \<and> length (projects (tick rnd clk s)) = length (projects s)
   \<and> length (budgets (tick rnd clk s)) = length (budgets s)"
proof -
  let ?fp = "\<lambda>p. (Project.id p, name p, Project.department p, budget p, Project.region p,
              startDate p, endDate p, Project.description p)"
  let ?fb = "\<lambda>b. (Budget.id b, Budget.department b, Budget.category b, allocated b,
              Budget.region b)"
  have p: "?fp (fst (tickProject rnd clk x w)) = ?fp x" for x w
    using tickProject_cases[of rnd clk x w] updateProject_frame by auto
  have b: "?fb (fst (tickBudget rnd clk x w)) = ?fb x" for x w
    using tickBudget_cases[of rnd clk x w] updateBudget_frame by auto
  have "list_all2 (\<lambda>x y. ?fp y = ?fp x) (projects s) (projects (tick rnd clk s))"
    unfolding projects_tick by (rule mapW_list_all2) (rule p)
  then have 1: "map ?fp (projects (tick rnd clk s)) = map ?fp (projects s)"
    by (rule list_all2_map_eq)
  have "list_all2 (\<lambda>x y. ?fb y = ?fb x) (budgets s) (budgets (tick rnd clk s))"
    unfolding budgets_tick by (rule mapW_list_all2) (rule b)
  then have 2: "map ?fb (budgets (tick rnd clk s)) = map ?fb (budgets s)"
    by (rule list_all2_map_eq)
  have 3: "length (projects (tick rnd clk s)) = length (projects s)"
    by (simp add: projects_tick mapW_length)
  have 4: "length (budgets (tick rnd clk s)) = length (budgets s)"
    by (simp add: budgets_tick mapW_length)
  from 1 2 3 4 show ?thesis by blast
qed

end
